theory Spec2Isabelle
  imports Complex_Main
begin

section \<open>JavaScript numbers\<close>

text \<open>
  A JavaScript \<^verbatim>\<open>number\<close> that reaches the usage statistics from the persisted store or
  from a caller can be any double, the three non-finite ones included, and the code tests
  for them (\<^verbatim>\<open>Number.isFinite\<close>, truthiness). The type below keeps the four kinds apart;
  a finite double is taken as the real number it denotes, so rounding is not modelled.
  Values the code only ever counts up by one (\<^verbatim>\<open>errorCount\<close>, \<^verbatim>\<open>failureCounts\<close>, the
  attempt counter) are integers, and \<^verbatim>\<open>Date.now()\<close> is an integer of milliseconds.
\<close>

datatype jsnum = Finite real | PosInf | NegInf | NaN

definition num :: "int \<Rightarrow> jsnum" where
  "num i = Finite (of_int i)"

fun isFinite :: "jsnum \<Rightarrow> bool" where
  "isFinite (Finite _) = True"
| "isFinite _ = False"

text \<open>\<^verbatim>\<open>a < b\<close> on numbers: false as soon as one side is \<^verbatim>\<open>NaN\<close>.\<close>

fun js_lt :: "jsnum \<Rightarrow> jsnum \<Rightarrow> bool" where
  "js_lt NaN _ = False"
| "js_lt _ NaN = False"
| "js_lt (Finite a) (Finite b) = (a < b)"
| "js_lt (Finite _) PosInf = True"
| "js_lt (Finite _) NegInf = False"
| "js_lt PosInf _ = False"
| "js_lt NegInf NegInf = False"
| "js_lt NegInf _ = True"

definition js_gt :: "jsnum \<Rightarrow> jsnum \<Rightarrow> bool" where
  "js_gt a b = js_lt b a"

text \<open>Truthiness of a number: every number but \<^verbatim>\<open>0\<close> and \<^verbatim>\<open>NaN\<close>.\<close>

fun truthy_num :: "jsnum \<Rightarrow> bool" where
  "truthy_num (Finite r) = (r \<noteq> 0)"
| "truthy_num NaN = False"
| "truthy_num _ = True"

fun js_add :: "jsnum \<Rightarrow> jsnum \<Rightarrow> jsnum" where
  "js_add NaN _ = NaN"
| "js_add _ NaN = NaN"
| "js_add (Finite a) (Finite b) = Finite (a + b)"
| "js_add PosInf NegInf = NaN"
| "js_add NegInf PosInf = NaN"
| "js_add PosInf _ = PosInf"
| "js_add NegInf _ = NegInf"
| "js_add (Finite _) b = b"

fun js_neg :: "jsnum \<Rightarrow> jsnum" where
  "js_neg (Finite a) = Finite (- a)"
| "js_neg PosInf = NegInf"
| "js_neg NegInf = PosInf"
| "js_neg NaN = NaN"

definition js_sub :: "jsnum \<Rightarrow> jsnum \<Rightarrow> jsnum" where
  "js_sub a b = js_add a (js_neg b)"

text \<open>\<^verbatim>\<open>x * k\<close> and \<^verbatim>\<open>x / k\<close> for a positive finite constant \<open>k\<close> (the code uses 1000).\<close>

fun js_scale :: "jsnum \<Rightarrow> real \<Rightarrow> jsnum" where
  "js_scale (Finite a) k = Finite (a * k)"
| "js_scale x _ = x"

fun js_div :: "jsnum \<Rightarrow> real \<Rightarrow> jsnum" where
  "js_div (Finite a) k = Finite (a / k)"
| "js_div x _ = x"

fun Math_ceil :: "jsnum \<Rightarrow> jsnum" where
  "Math_ceil (Finite a) = Finite (of_int \<lceil>a\<rceil>)"
| "Math_ceil x = x"

fun Math_max2 :: "jsnum \<Rightarrow> jsnum \<Rightarrow> jsnum" where
  "Math_max2 NaN _ = NaN"
| "Math_max2 _ NaN = NaN"
| "Math_max2 a b = (if js_lt a b then b else a)"

text \<open>\<^verbatim>\<open>Math.max(...values)\<close>: \<^verbatim>\<open>-Infinity\<close> for no argument.\<close>

definition Math_max :: "jsnum list \<Rightarrow> jsnum" where
  "Math_max vs = foldl Math_max2 NegInf vs"

text \<open>Truthiness of an optional string: present and not the empty string.\<close>

fun truthy_str :: "string option \<Rightarrow> bool" where
  "truthy_str None = False"
| "truthy_str (Some s) = (s \<noteq> [])"

section \<open>The store (types.ts)\<close>

datatype AuthProfileFailureReason = Auth | Format | RateLimit | Billing | Timeout | Unknown

text \<open>
  A credential carries its provider. It is an object, so it is truthy whenever it is
  present, and the operations below read nothing of it but its presence.
\<close>

datatype AuthProfileCredential =
    ApiKeyCredential string
  | TokenCredential string
  | OAuthCredential string

text \<open>
  An optional field is an \<open>option\<close>: \<open>None\<close> is a key that is absent or holds
  \<^verbatim>\<open>undefined\<close>. \<^verbatim>\<open>ProfileUsageStats\<close> has every field of \<^verbatim>\<open>ModelUsageStats\<close> and
  four more, so it is the record extension; the object spread \<^verbatim>\<open>{...x, f: v}\<close> is the
  record update \<open>x\<lparr>f := v\<rparr>\<close>, which keeps all other fields.
\<close>

record ModelUsageStats =
  lastUsed :: "jsnum option"
  cooldownUntil :: "jsnum option"
  errorCount :: "int option"
  lastFailureAt :: "jsnum option"

record ProfileUsageStats = ModelUsageStats +
  disabledUntil :: "jsnum option"
  disabledReason :: "AuthProfileFailureReason option"
  failureCounts :: "(AuthProfileFailureReason \<rightharpoonup> int) option"
  modelStats :: "(string \<rightharpoonup> ModelUsageStats) option"

record AuthProfileStore =
  version :: int
  profiles :: "string \<rightharpoonup> AuthProfileCredential"
  order :: "(string \<rightharpoonup> string list) option"
  lastGood :: "(string \<rightharpoonup> string) option"
  usageStats :: "(string \<rightharpoonup> ProfileUsageStats) option"

text \<open>The empty object \<^verbatim>\<open>{}\<close> at the two record types.\<close>

definition emptyModelStats :: ModelUsageStats where
  "emptyModelStats =
     \<lparr>lastUsed = None, cooldownUntil = None, errorCount = None, lastFailureAt = None\<rparr>"

definition emptyProfileStats :: ProfileUsageStats where
  "emptyProfileStats =
     \<lparr>lastUsed = None, cooldownUntil = None, errorCount = None, lastFailureAt = None,
      disabledUntil = None, disabledReason = None, failureCounts = None, modelStats = None\<rparr>"

section \<open>Eligibility\<close>

text \<open>\<^verbatim>\<open>stats.modelStats?.[modelId]\<close>\<close>

definition modelEntry :: "ProfileUsageStats \<Rightarrow> string \<Rightarrow> ModelUsageStats option" where
  "modelEntry stats m = (case modelStats stats of None \<Rightarrow> None | Some ms \<Rightarrow> ms m)"

text \<open>\<^verbatim>\<open>stats.modelStats?.[modelId]?.cooldownUntil\<close>\<close>

definition modelCooldownUntil :: "ProfileUsageStats \<Rightarrow> string \<Rightarrow> jsnum option" where
  "modelCooldownUntil stats m =
     (case modelEntry stats m of None \<Rightarrow> None | Some ms \<Rightarrow> cooldownUntil ms)"

text \<open>
  \<^verbatim>\<open>resolveProfileUnusableUntil\<close>: the two profile-wide timestamps pass the two filters
  (a number; finite and positive); the model's timestamp is pushed when the model id and
  the timestamp are truthy.
\<close>

definition resolveProfileUnusableUntil ::
  "ProfileUsageStats \<Rightarrow> string option \<Rightarrow> jsnum option" where
  "resolveProfileUnusableUntil stats modelId =
     (let values0 =
            filter (\<lambda>v. isFinite v \<and> js_gt v (Finite 0))
              (List.map_filter id [cooldownUntil stats, disabledUntil stats]);
          values =
            (case modelId of
               None \<Rightarrow> values0
             | Some m \<Rightarrow>
                 (case modelCooldownUntil stats m of
                    None \<Rightarrow> values0
                  | Some c \<Rightarrow>
                      if truthy_str modelId \<and> truthy_num c then values0 @ [c] else values0))
      in if values = [] then None else Some (Math_max values))"

text \<open>\<^verbatim>\<open>store.usageStats?.[profileId]\<close>\<close>

definition profileStats :: "AuthProfileStore \<Rightarrow> string \<Rightarrow> ProfileUsageStats option" where
  "profileStats store profileId =
     (case usageStats store of None \<Rightarrow> None | Some us \<Rightarrow> us profileId)"

text \<open>\<^verbatim>\<open>isProfileInCooldown\<close>, with the reading of \<^verbatim>\<open>Date.now()\<close> as the last argument.\<close>

definition isProfileInCooldown ::
  "AuthProfileStore \<Rightarrow> string \<Rightarrow> string option \<Rightarrow> int \<Rightarrow> bool" where
  "isProfileInCooldown store profileId modelId now =
     (case profileStats store profileId of
        None \<Rightarrow> False
      | Some stats \<Rightarrow>
          (case resolveProfileUnusableUntil stats modelId of
             None \<Rightarrow> False
           | Some unusableUntil \<Rightarrow>
               if truthy_num unusableUntil then js_lt (num now) unusableUntil else False))"

definition resolveProfileUnusableUntilForDisplay ::
  "AuthProfileStore \<Rightarrow> string \<Rightarrow> string option \<Rightarrow> jsnum option" where
  "resolveProfileUnusableUntilForDisplay store profileId modelId =
     (case profileStats store profileId of
        None \<Rightarrow> None
      | Some stats \<Rightarrow> resolveProfileUnusableUntil stats modelId)"

section \<open>Success: markAuthProfileUsed\<close>

text \<open>
  Modelled from the spec: \<^verbatim>\<open>updateAuthProfileStoreWithLock\<close> lives in \<^verbatim>\<open>store.js\<close>,
  whose source is not at hand. The spec (4.4): \<^verbatim>\<open>update\<close> takes the lock, re-reads the
  store from disk, runs the updater on the fresh store, writes it back when the updater
  asks for it, and returns the post-update store, or absent when the updater declined.
  The disk is \<open>None\<close> when the store cannot be locked and read (the case the fallback
  path is for), and then \<^verbatim>\<open>update\<close> returns absent too. An updater is a function to
  \<open>Some\<close> of the mutated store, or \<open>None\<close> when it returns false before mutating
  anything. The result is the returned store and the disk afterwards.
\<close>

definition updateAuthProfileStoreWithLock ::
  "(AuthProfileStore \<Rightarrow> AuthProfileStore option) \<Rightarrow> AuthProfileStore option
     \<Rightarrow> AuthProfileStore option \<times> AuthProfileStore option" where
  "updateAuthProfileStoreWithLock updater disk =
     (case disk of
        None \<Rightarrow> (None, None)
      | Some freshStore \<Rightarrow>
          (case updater freshStore of
             None \<Rightarrow> (None, Some freshStore)
           | Some written \<Rightarrow> (Some written, Some written)))"

text \<open>
  Modelled from the spec: \<^verbatim>\<open>saveAuthProfileStore\<close> lives in \<^verbatim>\<open>store.js\<close> too. The spec
  (4.4): \<^verbatim>\<open>save\<close> writes the given store; the result is the disk afterwards.
\<close>

definition saveAuthProfileStore :: "AuthProfileStore \<Rightarrow> AuthProfileStore option" where
  "saveAuthProfileStore store = Some store"

text \<open>\<^verbatim>\<open>x ?? {}\<close> for an optional mapping.\<close>

definition orEmpty :: "('k \<rightharpoonup> 'v) option \<Rightarrow> ('k \<rightharpoonup> 'v)" where
  "orEmpty m = (case m of None \<Rightarrow> Map.empty | Some f \<Rightarrow> f)"

text \<open>
  The statistics \<^verbatim>\<open>markAuthProfileUsed\<close> builds from the existing ones (lines 62 to 79, and
  again 95 to 112): \<open>now1\<close> and \<open>now2\<close> are the two readings of \<^verbatim>\<open>Date.now()\<close>, for the
  profile and for the model. The model's entry is a new object of three keys.
\<close>

definition usedStats ::
  "ProfileUsageStats \<Rightarrow> string option \<Rightarrow> int \<Rightarrow> int \<Rightarrow> ProfileUsageStats" where
  "usedStats existing modelId now1 now2 =
     (let newStats = existing\<lparr>lastUsed := Some (num now1), errorCount := Some 0,
            cooldownUntil := None, disabledUntil := None, disabledReason := None,
            failureCounts := None\<rparr>
      in case modelId of
           None \<Rightarrow> newStats
         | Some m \<Rightarrow>
             if truthy_str modelId
             then newStats\<lparr>modelStats := Some ((orEmpty (modelStats newStats))
                    (m \<mapsto> \<lparr>lastUsed = Some (num now2), cooldownUntil = None,
                           errorCount = Some 0, lastFailureAt = None\<rparr>))\<rparr>
             else newStats)"

text \<open>The updater of \<^verbatim>\<open>markAuthProfileUsed\<close> (lines 55 to 83).\<close>

definition markUsedUpdater ::
  "string \<Rightarrow> string option \<Rightarrow> int \<Rightarrow> int \<Rightarrow> AuthProfileStore \<Rightarrow> AuthProfileStore option" where
  "markUsedUpdater profileId modelId now1 now2 freshStore =
     (if profiles freshStore profileId = None then None
      else
        let stats = orEmpty (usageStats freshStore);
            existing = (case stats profileId of None \<Rightarrow> emptyProfileStats | Some e \<Rightarrow> e)
        in Some (freshStore\<lparr>usageStats :=
                   Some (stats(profileId \<mapsto> usedStats existing modelId now1 now2))\<rparr>))"

text \<open>
  \<^verbatim>\<open>markAuthProfileUsed\<close> on the caller's store and the disk; the result is the caller's
  store and the disk afterwards. Only one of the two paths reads the clock.
\<close>

definition markAuthProfileUsed ::
  "AuthProfileStore \<Rightarrow> AuthProfileStore option \<Rightarrow> string \<Rightarrow> string option \<Rightarrow> int \<Rightarrow> int
     \<Rightarrow> AuthProfileStore \<times> AuthProfileStore option" where
  "markAuthProfileUsed store disk profileId modelId now1 now2 =
     (case updateAuthProfileStoreWithLock (markUsedUpdater profileId modelId now1 now2) disk of
        (Some updated, disk') \<Rightarrow> (store\<lparr>usageStats := usageStats updated\<rparr>, disk')
      | (None, disk') \<Rightarrow>
          if profiles store profileId = None then (store, disk')
          else
            let stats = orEmpty (usageStats store);
                existing = (case stats profileId of None \<Rightarrow> emptyProfileStats | Some e \<Rightarrow> e);
                store' = store\<lparr>usageStats :=
                           Some (stats(profileId \<mapsto> usedStats existing modelId now1 now2))\<rparr>
            in (store', saveAuthProfileStore store'))"

section \<open>Backoff\<close>

definition calculateAuthProfileCooldownMs :: "int \<Rightarrow> real" where
  "calculateAuthProfileCooldownMs n =
     (let normalized = max 1 n
      in min (60 * 60 * 1000) (60 * 1000 * 5 ^ nat (min (normalized - 1) 3)))"

text \<open>
  Only \<^verbatim>\<open>resolveAuthCooldownConfig\<close> builds the configuration, from hours that passed
  its check for a positive finite number, so the three durations are real numbers.
\<close>

record ResolvedAuthCooldownConfig =
  billingBackoffMs :: real
  billingMaxMs :: real
  failureWindowMs :: real

definition calculateAuthProfileBillingDisableMsWithConfig :: "int \<Rightarrow> real \<Rightarrow> real \<Rightarrow> real" where
  "calculateAuthProfileBillingDisableMsWithConfig n baseMs0 maxMs0 =
     (let normalized = max 1 n;
          baseMs = max 60000 baseMs0;
          maxMs = max baseMs maxMs0;
          exponent = min (normalized - 1) 10;
          raw = baseMs * 2 ^ nat exponent
      in min maxMs raw)"

section \<open>Failure: computeNextProfileUsageStats\<close>

text \<open>\<^verbatim>\<open>c ?? 0\<close> for an optional count.\<close>

definition orZero :: "int option \<Rightarrow> int" where
  "orZero c = (case c of None \<Rightarrow> 0 | Some k \<Rightarrow> k)"

definition windowExpired :: "ProfileUsageStats \<Rightarrow> int \<Rightarrow> real \<Rightarrow> bool" where
  "windowExpired existing now windowMs =
     (case lastFailureAt existing of
        None \<Rightarrow> False
      | Some l \<Rightarrow> js_gt l (Finite 0) \<and> js_gt (js_sub (num now) l) (Finite windowMs))"

definition computeNextProfileUsageStats ::
  "ProfileUsageStats \<Rightarrow> int \<Rightarrow> AuthProfileFailureReason \<Rightarrow> ResolvedAuthCooldownConfig
     \<Rightarrow> string option \<Rightarrow> jsnum option \<Rightarrow> ProfileUsageStats" where
  "computeNextProfileUsageStats existing now reason cfgResolved modelId retryAfterMs =
     (let expired = windowExpired existing now (failureWindowMs cfgResolved)
      in if reason = Billing then
           let counts0 = (if expired then Map.empty else orEmpty (failureCounts existing));
               counts = counts0(reason \<mapsto> orZero (counts0 reason) + 1);
               billingCount = (case counts Billing of None \<Rightarrow> 1 | Some c \<Rightarrow> c);
               backoffMs = calculateAuthProfileBillingDisableMsWithConfig billingCount
                             (billingBackoffMs cfgResolved) (billingMaxMs cfgResolved)
           in existing\<lparr>disabledUntil := Some (js_add (num now) (Finite backoffMs)),
                disabledReason := Some Billing, failureCounts := Some counts,
                lastFailureAt := Some (num now)\<rparr>
         else
           let isModelSpecific = (truthy_str modelId \<and> (reason = RateLimit \<or> reason = Timeout))
           in case (if isModelSpecific then modelId else None) of
                Some m \<Rightarrow>
                  let models = orEmpty (modelStats existing);
                      entry = (case models m of None \<Rightarrow> emptyModelStats | Some e \<Rightarrow> e);
                      modelErrorCount = orZero (errorCount entry) + 1;
                      backoffMs = (case retryAfterMs of
                                     None \<Rightarrow> Finite (calculateAuthProfileCooldownMs modelErrorCount)
                                   | Some r \<Rightarrow> r)
                  in existing\<lparr>modelStats := Some (models(m \<mapsto>
                       entry\<lparr>errorCount := Some modelErrorCount,
                         cooldownUntil := Some (js_add (num now) backoffMs),
                         lastFailureAt := Some (num now)\<rparr>))\<rparr>
              | None \<Rightarrow>
                  let baseErrorCount = (if expired then 0 else orZero (errorCount existing));
                      nextErrorCount = baseErrorCount + 1;
                      backoffMs = (case retryAfterMs of
                                     None \<Rightarrow> Finite (calculateAuthProfileCooldownMs nextErrorCount)
                                   | Some r \<Rightarrow> r)
                  in existing\<lparr>errorCount := Some nextErrorCount,
                       cooldownUntil := Some (js_add (num now) backoffMs),
                       lastFailureAt := Some (num now)\<rparr>)"

section \<open>Manual reset: clearAuthProfileCooldown\<close>

text \<open>
  What \<^verbatim>\<open>clearAuthProfileCooldown\<close> does to the profile's statistics (lines 379 to 394,
  and again 407 to 421): with a model id only that model's entry, when there is one.
\<close>

definition clearedStats :: "ProfileUsageStats \<Rightarrow> string option \<Rightarrow> ProfileUsageStats" where
  "clearedStats stats modelId =
     (case (if truthy_str modelId then modelId else None) of
        Some m \<Rightarrow>
          (case modelEntry stats m of
             None \<Rightarrow> stats
           | Some entry \<Rightarrow>
               stats\<lparr>modelStats := Some ((orEmpty (modelStats stats))
                 (m \<mapsto> entry\<lparr>errorCount := Some 0, cooldownUntil := None\<rparr>))\<rparr>)
      | None \<Rightarrow> stats\<lparr>errorCount := Some 0, cooldownUntil := None\<rparr>)"

definition clearCooldownUpdater ::
  "string \<Rightarrow> string option \<Rightarrow> AuthProfileStore \<Rightarrow> AuthProfileStore option" where
  "clearCooldownUpdater profileId modelId freshStore =
     (case profileStats freshStore profileId of
        None \<Rightarrow> None
      | Some stats \<Rightarrow>
          Some (freshStore\<lparr>usageStats :=
                  Some ((orEmpty (usageStats freshStore))
                          (profileId \<mapsto> clearedStats stats modelId))\<rparr>))"

definition clearAuthProfileCooldown ::
  "AuthProfileStore \<Rightarrow> AuthProfileStore option \<Rightarrow> string \<Rightarrow> string option
     \<Rightarrow> AuthProfileStore \<times> AuthProfileStore option" where
  "clearAuthProfileCooldown store disk profileId modelId =
     (case updateAuthProfileStoreWithLock (clearCooldownUpdater profileId modelId) disk of
        (Some updated, disk') \<Rightarrow> (store\<lparr>usageStats := usageStats updated\<rparr>, disk')
      | (None, disk') \<Rightarrow>
          (case profileStats store profileId of
             None \<Rightarrow> (store, disk')
           | Some stats \<Rightarrow>
               let store' = store\<lparr>usageStats :=
                              Some ((orEmpty (usageStats store))
                                      (profileId \<mapsto> clearedStats stats modelId))\<rparr>
               in (store', saveAuthProfileStore store')))"

section \<open>Retry-After\<close>

text \<open>
  The error value as \<^verbatim>\<open>extractRetryAfterMs\<close> looks at it. \<open>None\<close> for the whole value is
  an error that is falsy or not an object. \<open>headers\<close> is \<open>None\<close> when the property is falsy
  or not an object, and otherwise the object's keys in order with their values, of the
  type the code casts them to (\<^verbatim>\<open>string | string[]\<close>). \<open>retryAfter\<close> and \<open>retry_after\<close> are
  \<open>None\<close> when the property is not of type number.
\<close>

datatype header_value = HString string | HArray "string list"

record error_object =
  headers :: "(string \<times> header_value) list option"
  retryAfter :: "jsnum option"
  retry_after :: "jsnum option"

definition isDigit :: "char \<Rightarrow> bool" where
  "isDigit c = (c \<in> set ''0123456789'')"

definition digitValue :: "char \<Rightarrow> nat" where
  "digitValue c = of_char c - 48"

definition digitsValue :: "string \<Rightarrow> nat" where
  "digitsValue ds = foldl (\<lambda>a c. 10 * a + digitValue c) 0 ds"

text \<open>The test of \<^verbatim>\<open>/^\d+(\.\d+)?$/\<close>.\<close>

definition isNumericString :: "string \<Rightarrow> bool" where
  "isNumericString s =
     (takeWhile isDigit s \<noteq> [] \<and>
      (case dropWhile isDigit s of
         [] \<Rightarrow> True
       | c # decimals \<Rightarrow> c = CHR ''.'' \<and> decimals \<noteq> [] \<and> list_all isDigit decimals))"

text \<open>\<^verbatim>\<open>parseFloat\<close> of a string that passed the test: the decimal it writes.\<close>

definition parseFloat :: "string \<Rightarrow> real" where
  "parseFloat s =
     (let whole = takeWhile isDigit s; decimals = drop (length whole + 1) s
      in real (digitsValue whole) + real (digitsValue decimals) / 10 ^ length decimals)"

definition toLowerCase :: "string \<Rightarrow> string" where
  "toLowerCase s =
     map (\<lambda>c. if c \<in> set ''ABCDEFGHIJKLMNOPQRSTUVWXYZ''
                 then char_of (of_char c + (32::nat)) else c) s"

text \<open>
  \<^verbatim>\<open>extractRetryAfterMs\<close>. \<^verbatim>\<open>Date.parse\<close> is a parameter, \<open>None\<close> for \<^verbatim>\<open>NaN\<close>, and \<open>now\<close> is
  the reading of \<^verbatim>\<open>Date.now()\<close>. The header yields a result in two cases; in every other
  case the direct properties are tried.
\<close>

definition headerRetryAfterMs ::
  "(string \<Rightarrow> int option) \<Rightarrow> int \<Rightarrow> (string \<times> header_value) list option \<Rightarrow> jsnum option" where
  "headerRetryAfterMs Date_parse now hs =
     (case hs of
        None \<Rightarrow> None
      | Some entries \<Rightarrow>
          (case find (\<lambda>k. toLowerCase k = ''retry-after'') (map fst entries) of
             None \<Rightarrow> None
           | Some retryKey \<Rightarrow>
               (case map_of entries retryKey of
                  None \<Rightarrow> None
                | Some val \<Rightarrow>
                    (case (case val of HArray [] \<Rightarrow> None | HArray (v # _) \<Rightarrow> Some v
                                     | HString v \<Rightarrow> Some v) of
                       None \<Rightarrow> None
                     | Some valStr \<Rightarrow>
                         if valStr = [] then None
                         else if isNumericString valStr
                         then Some (Math_ceil (Finite (parseFloat valStr * 1000)))
                         else (case Date_parse valStr of
                                 None \<Rightarrow> None
                               | Some date \<Rightarrow>
                                   let delta = date - now
                                   in Some (num (if delta > 0 then delta else 0)))))))"

definition extractRetryAfterMs ::
  "(string \<Rightarrow> int option) \<Rightarrow> int \<Rightarrow> error_object option \<Rightarrow> jsnum option" where
  "extractRetryAfterMs Date_parse now error =
     (case error of
        None \<Rightarrow> None
      | Some record \<Rightarrow>
          (case headerRetryAfterMs Date_parse now (headers record) of
             Some ms \<Rightarrow> Some ms
           | None \<Rightarrow>
               (case retryAfter record of
                  Some r \<Rightarrow> Some (js_scale r 1000)
                | None \<Rightarrow>
                    (case retry_after record of
                       Some r \<Rightarrow> Some (js_scale r 1000)
                     | None \<Rightarrow> None))))"

section \<open>The retry driver (infinite-retry.ts)\<close>

text \<open>
  \<^verbatim>\<open>calculateMinimumWaitMs\<close>: \<open>now\<close> is the reading of \<^verbatim>\<open>Date.now()\<close> at the top, and
  \<open>clock k\<close> the reading inside the \<open>k\<close>-th call of \<^verbatim>\<open>isProfileInCooldown\<close>. The loop over
  the candidates carries \<^verbatim>\<open>minUnusableUntil\<close>.
\<close>

fun calculateMinimumWaitMs_loop ::
  "AuthProfileStore \<Rightarrow> string \<Rightarrow> int \<Rightarrow> (nat \<Rightarrow> int) \<Rightarrow> nat \<Rightarrow> string option list
     \<Rightarrow> jsnum option \<Rightarrow> jsnum" where
  "calculateMinimumWaitMs_loop store m now clock k [] minUnusableUntil =
     (case minUnusableUntil of
        None \<Rightarrow> Finite 0
      | Some u \<Rightarrow> Math_max2 (Finite 0) (js_sub u (num now)))"
| "calculateMinimumWaitMs_loop store m now clock k (c # cs) minUnusableUntil =
     (case (if truthy_str c then c else None) of
        None \<Rightarrow> calculateMinimumWaitMs_loop store m now clock k cs minUnusableUntil
      | Some profileId \<Rightarrow>
          if \<not> isProfileInCooldown store profileId (Some m) (clock k) then Finite 0
          else
            calculateMinimumWaitMs_loop store m now clock (Suc k) cs
              (case resolveProfileUnusableUntilForDisplay store profileId (Some m) of
                 None \<Rightarrow> minUnusableUntil
               | Some unusableUntil \<Rightarrow>
                   if truthy_num unusableUntil \<and> js_gt unusableUntil (num now)
                   then (case minUnusableUntil of
                           None \<Rightarrow> Some unusableUntil
                         | Some least \<Rightarrow>
                             if js_lt unusableUntil least then Some unusableUntil
                             else Some least)
                   else minUnusableUntil))"

definition calculateMinimumWaitMs ::
  "AuthProfileStore \<Rightarrow> string option list \<Rightarrow> string \<Rightarrow> (nat \<Rightarrow> int) \<Rightarrow> jsnum" where
  "calculateMinimumWaitMs store profileCandidates m clock =
     calculateMinimumWaitMs_loop store m (clock 0) clock 1 profileCandidates None"

text \<open>
  Modelled from the spec: the class \<^verbatim>\<open>FailoverError\<close> lives in \<^verbatim>\<open>failover-error.js\<close>,
  whose source is not at hand. The spec (4.8): an error variant carrying a
  \<^verbatim>\<open>failoverReason\<close> drawn from the failure reasons. What \<^verbatim>\<open>execute\<close> throws is such an
  error, or any other value, named here by a string; the driver's own
  \<^verbatim>\<open>new Error(msg)\<close> is of the second kind.
\<close>

datatype thrown = FailoverError AuthProfileFailureReason | Error string

text \<open>The test of lines 90 to 93.\<close>

fun isQuotaFailure :: "thrown \<Rightarrow> bool" where
  "isQuotaFailure (FailoverError reason) = (reason = RateLimit \<or> reason = Timeout)"
| "isQuotaFailure (Error _) = False"

text \<open>
  One iteration of the loop, as the environment decides it: the three readings of
  \<^verbatim>\<open>abortSignal?.aborted\<close> (all false without a signal) and whether the abort fires while
  the timer runs, what \<^verbatim>\<open>execute\<close> does, the contents of the \<^verbatim>\<open>authStore\<close> object when the
  wait is computed (\<open>None\<close> when no store was passed), and the clock.
\<close>

record 'a attempt =
  abortedAtTop :: bool
  executeResult :: "thrown + 'a"
  abortedInCatch :: bool
  authStore :: "AuthProfileStore option"
  clock :: "nat \<Rightarrow> int"
  abortedBeforeSleep :: bool
  abortedDuringSleep :: bool

text \<open>
  What the driver does that can be seen from outside, in order. The callback and the
  logger return nothing (their type is \<^verbatim>\<open>void\<close>); their calls are recorded with the
  arguments. \<open>Slept\<close> is a sleep that ran to its end.
\<close>

datatype event =
    Executed nat
  | QuotaExhaustion string string jsnum nat
  | Warned "string option" "string option" jsnum nat
  | Slept jsnum

datatype 'a outcome = Returned 'a | Threw thrown | Pending

text \<open>
  The wait of lines 94 to 97: an array is truthy even when empty, a string only when not
  empty.
\<close>

definition waitMsOf ::
  "AuthProfileStore option \<Rightarrow> string option list option \<Rightarrow> string option \<Rightarrow> (nat \<Rightarrow> int)
     \<Rightarrow> jsnum" where
  "waitMsOf store profileCandidates modelId clk =
     (case store of
        None \<Rightarrow> Finite (60 * 1000)
      | Some st \<Rightarrow>
          (case profileCandidates of
             None \<Rightarrow> Finite (60 * 1000)
           | Some cands \<Rightarrow>
               (case modelId of
                  None \<Rightarrow> Finite (60 * 1000)
                | Some m \<Rightarrow>
                    if truthy_str modelId then calculateMinimumWaitMs st cands m clk
                    else Finite (60 * 1000))))"

text \<open>
  \<^verbatim>\<open>sleepWithAbort\<close>: the error it rejects with, or \<open>None\<close> when the timer fires.
\<close>

definition sleepWithAbort :: "bool \<Rightarrow> bool \<Rightarrow> thrown option" where
  "sleepWithAbort abortedBefore abortedDuring =
     (if abortedBefore then Some (Error ''Task aborted'')
      else if abortedDuring then Some (Error ''Task aborted during cooldown wait'')
      else None)"

text \<open>
  The loop of \<^verbatim>\<open>withInfiniteRetry\<close>, run against the list of what the environment does in
  each iteration; \<open>attempt0\<close> is the counter before the iteration. When the list ends
  before the loop does, the driver is still running: \<open>Pending\<close>.
\<close>

fun withInfiniteRetry_loop ::
  "bool \<Rightarrow> string option list option \<Rightarrow> string option \<Rightarrow> string option \<Rightarrow> nat
     \<Rightarrow> 'a attempt list \<Rightarrow> event list \<times> 'a outcome" where
  "withInfiniteRetry_loop onQuotaExhaustion profileCandidates modelId provider attempt0 [] =
     ([], Pending)"
| "withInfiniteRetry_loop onQuotaExhaustion profileCandidates modelId provider attempt0 (e # es) =
     (let attempt = attempt0 + 1
      in if abortedAtTop e then ([], Threw (Error ''Task aborted by user''))
         else
           (case executeResult e of
              Inr result \<Rightarrow> ([Executed attempt], Returned result)
            | Inl error \<Rightarrow>
                if abortedInCatch e then ([Executed attempt], Threw error)
                else if isQuotaFailure error then
                  let waitMs = waitMsOf (authStore e) profileCandidates modelId (clock e);
                      waitSec = Math_ceil (js_div waitMs 1000);
                      notice =
                        (if onQuotaExhaustion
                         then QuotaExhaustion
                                (case provider of None \<Rightarrow> ''unknown'' | Some p \<Rightarrow> p)
                                (case modelId of None \<Rightarrow> ''unknown'' | Some m \<Rightarrow> m)
                                waitMs attempt
                         else Warned provider modelId waitSec attempt)
                  in (case sleepWithAbort (abortedBeforeSleep e) (abortedDuringSleep e) of
                        Some aborted \<Rightarrow> ([Executed attempt, notice], Threw aborted)
                      | None \<Rightarrow>
                          (case withInfiniteRetry_loop onQuotaExhaustion profileCandidates
                                  modelId provider attempt es of
                             (events, out) \<Rightarrow>
                               (Executed attempt # notice # Slept waitMs # events, out)))
                else ([Executed attempt], Threw error)))"

definition withInfiniteRetry ::
  "bool \<Rightarrow> string option list option \<Rightarrow> string option \<Rightarrow> string option \<Rightarrow> 'a attempt list
     \<Rightarrow> event list \<times> 'a outcome" where
  "withInfiniteRetry onQuotaExhaustion profileCandidates modelId provider es =
     withInfiniteRetry_loop onQuotaExhaustion profileCandidates modelId provider 0 es"

section \<open>Auxiliary notions for the statements\<close>

text \<open>
  The store whose statistics \<^verbatim>\<open>clearAuthProfileCooldown\<close> reads and rewrites: the fresh
  store, when the lock yields one and it has statistics for the profile (the updater
  returns true), and the caller's store otherwise (the fallback path).
\<close>

definition clearBase ::
  "AuthProfileStore \<Rightarrow> AuthProfileStore option \<Rightarrow> string \<Rightarrow> AuthProfileStore" where
  "clearBase store disk profileId =
     (case disk of
        None \<Rightarrow> store
      | Some freshStore \<Rightarrow>
          if profileStats freshStore profileId = None then store else freshStore)"

section \<open>Example data\<close>

text \<open>
  A profile that was rate-limited and disabled for billing, with one model of its own in
  cooldown; a store that holds it; and one iteration of the driver in which nothing
  cancels and \<^verbatim>\<open>execute\<close> throws the given error.
\<close>

definition exampleStats :: ProfileUsageStats where
  "exampleStats =
     \<lparr>lastUsed = Some (Finite 100), cooldownUntil = Some (Finite 5000), errorCount = Some 3,
      lastFailureAt = Some (Finite 400), disabledUntil = Some (Finite 9000),
      disabledReason = Some Billing, failureCounts = Some [Billing \<mapsto> 2],
      modelStats = Some [''opus'' \<mapsto>
        \<lparr>lastUsed = Some (Finite 50), cooldownUntil = Some (Finite 7000), errorCount = Some 2,
         lastFailureAt = Some (Finite 300)\<rparr>]\<rparr>"

definition exampleStore :: AuthProfileStore where
  "exampleStore =
     \<lparr>version = 1, profiles = [''p1'' \<mapsto> ApiKeyCredential ''anthropic''], order = None,
      lastGood = None, usageStats = Some [''p1'' \<mapsto> exampleStats]\<rparr>"

definition exampleAttempt :: "thrown \<Rightarrow> nat attempt" where
  "exampleAttempt err =
     \<lparr>abortedAtTop = False, executeResult = Inl err, abortedInCatch = False,
      authStore = Some exampleStore, clock = (\<lambda>k. 1000), abortedBeforeSleep = False,
      abortedDuringSleep = False\<rparr>"

section \<open>Theorems\<close>

subsection \<open>Eligibility\<close>

text \<open>
  C1: \<^verbatim>\<open>resolveProfileUnusableUntil\<close> on statistics whose only timestamp is the model's
  \<^verbatim>\<open>cooldownUntil\<close>, and that one negative, or infinite. The two profile-wide
  timestamps go through the filter for finite positive numbers (third case: a negative
  and an infinite one give \<^verbatim>\<open>null\<close>); the model's timestamp is pushed on truthiness
  alone, so the negative or infinite number is the result, where a value that counts as
  absent would give \<^verbatim>\<open>null\<close>.
\<close>

theorem resolveProfileUnusableUntil_model_negative:
  "resolveProfileUnusableUntil
     \<lparr>lastUsed = None, cooldownUntil = None, errorCount = None, lastFailureAt = None,
      disabledUntil = None, disabledReason = None, failureCounts = None,
      modelStats = Some [''opus'' \<mapsto>
        \<lparr>lastUsed = None, cooldownUntil = Some (Finite (- 5)), errorCount = None,
         lastFailureAt = None\<rparr>]\<rparr>
     (Some ''opus'') = Some (Finite (- 5))
   \<and> resolveProfileUnusableUntil
     \<lparr>lastUsed = None, cooldownUntil = None, errorCount = None, lastFailureAt = None,
      disabledUntil = None, disabledReason = None, failureCounts = None,
      modelStats = Some [''opus'' \<mapsto>
        \<lparr>lastUsed = None, cooldownUntil = Some PosInf, errorCount = None,
         lastFailureAt = None\<rparr>]\<rparr>
     (Some ''opus'') = Some PosInf
   \<and> resolveProfileUnusableUntil
     \<lparr>lastUsed = None, cooldownUntil = Some (Finite (- 5)), errorCount = None,
      lastFailureAt = None, disabledUntil = Some PosInf, disabledReason = None,
      failureCounts = None, modelStats = None\<rparr>
     (Some ''opus'') = None"
  by (simp add: resolveProfileUnusableUntil_def modelCooldownUntil_def modelEntry_def
        Math_max_def List.map_filter_simps js_gt_def)

text \<open>
  C9: when the store has no \<^verbatim>\<open>usageStats\<close> mapping, or the mapping has no entry for the
  profile id, \<^verbatim>\<open>isProfileInCooldown\<close> returns false, for every model id and every clock
  reading; the \<^verbatim>\<open>profiles\<close> mapping is not consulted.
\<close>

theorem isProfileInCooldown_no_stats:
  assumes "usageStats store = None \<or> (\<exists>us. usageStats store = Some us \<and> us profileId = None)"
  shows "isProfileInCooldown store profileId modelId now = False"
  using assms by (auto simp: isProfileInCooldown_def profileStats_def)

theorem isProfileInCooldown_no_stats_witness:
  "(usageStats \<lparr>version = 1, profiles = Map.empty, order = None, lastGood = None,
       usageStats = None\<rparr> = None)
   \<and> isProfileInCooldown
        \<lparr>version = 1, profiles = Map.empty, order = None, lastGood = None, usageStats = None\<rparr>
        ''p1'' (Some ''opus'') 0 = False
   \<and> (\<exists>us. usageStats \<lparr>version = 1, profiles = Map.empty, order = None, lastGood = None,
         usageStats = Some Map.empty\<rparr> = Some us \<and> us ''ghost'' = None)
   \<and> isProfileInCooldown
        \<lparr>version = 1, profiles = Map.empty, order = None, lastGood = None,
         usageStats = Some Map.empty\<rparr>
        ''ghost'' None 1000 = False"
proof -
  have h1: "usageStats \<lparr>version = 1, profiles = Map.empty, order = None, lastGood = None,
              usageStats = None\<rparr> = None
            \<or> (\<exists>us. usageStats \<lparr>version = 1, profiles = Map.empty, order = None,
                  lastGood = None, usageStats = None\<rparr> = Some us \<and> us ''p1'' = None)"
    by simp
  have h2: "usageStats \<lparr>version = 1, profiles = Map.empty, order = None, lastGood = None,
              usageStats = Some Map.empty\<rparr> = None
            \<or> (\<exists>us. usageStats \<lparr>version = 1, profiles = Map.empty, order = None,
                  lastGood = None, usageStats = Some Map.empty\<rparr> = Some us
                  \<and> us ''ghost'' = None)"
    by simp
  show ?thesis
    using isProfileInCooldown_no_stats [OF h1, of "Some ''opus''" 0]
      isProfileInCooldown_no_stats [OF h2, of None 1000]
    by simp
qed

subsection \<open>Success\<close>

text \<open>
  C2: \<^verbatim>\<open>markAuthProfileUsed\<close> with a model id, on a store whose entry for that model has a
  \<^verbatim>\<open>lastFailureAt\<close>. The profile's statistics are spread into the new ones, but the model's
  entry is replaced by a new object of \<^verbatim>\<open>lastUsed\<close>, \<^verbatim>\<open>errorCount\<close> and \<^verbatim>\<open>cooldownUntil\<close>:
  afterwards the entry has no \<^verbatim>\<open>lastFailureAt\<close>, where before it had one.
\<close>

theorem markAuthProfileUsed_drops_model_lastFailureAt:
  "map_option (\<lambda>stats. modelEntry stats ''opus'')
     (profileStats (fst (markAuthProfileUsed exampleStore (Some exampleStore) ''p1''
                           (Some ''opus'') 1000 1000)) ''p1'')
     = Some (Some \<lparr>lastUsed = Some (Finite 1000), cooldownUntil = None, errorCount = Some 0,
                    lastFailureAt = None\<rparr>)
   \<and> map_option (\<lambda>stats. modelEntry stats ''opus'') (profileStats exampleStore ''p1'')
     = Some (Some \<lparr>lastUsed = Some (Finite 50), cooldownUntil = Some (Finite 7000),
                    errorCount = Some 2, lastFailureAt = Some (Finite 300)\<rparr>)"
  by (simp add: markAuthProfileUsed_def updateAuthProfileStoreWithLock_def markUsedUpdater_def
        usedStats_def profileStats_def modelEntry_def orEmpty_def exampleStore_def
        exampleStats_def num_def Let_def)

lemma usedStats_profile:
  "errorCount (usedStats existing modelId now1 now2) = Some 0
   \<and> cooldownUntil (usedStats existing modelId now1 now2) = None
   \<and> disabledUntil (usedStats existing modelId now1 now2) = None
   \<and> disabledReason (usedStats existing modelId now1 now2) = None
   \<and> failureCounts (usedStats existing modelId now1 now2) = None
   \<and> lastUsed (usedStats existing modelId now1 now2) = Some (num now1)"
  by (simp add: usedStats_def Let_def split: option.splits)

lemma usedStats_model:
  assumes "modelId = Some m" and "m \<noteq> []"
  shows "modelEntry (usedStats existing modelId now1 now2) m
           = Some \<lparr>lastUsed = Some (num now2), cooldownUntil = None, errorCount = Some 0,
                   lastFailureAt = None\<rparr>"
  using assms by (simp add: usedStats_def Let_def modelEntry_def)

lemma usedStats_not_unusable_profile:
  "resolveProfileUnusableUntil (usedStats existing modelId now1 now2) None = None"
  using usedStats_profile [of existing modelId now1 now2]
  by (simp add: resolveProfileUnusableUntil_def List.map_filter_simps)

lemma usedStats_not_unusable_model:
  "resolveProfileUnusableUntil (usedStats existing modelId now1 now2) modelId = None"
proof (cases "truthy_str modelId")
  case True
  then obtain m where m: "modelId = Some m" "m \<noteq> []" by (cases modelId) auto
  show ?thesis
    using usedStats_profile [of existing modelId now1 now2]
      usedStats_model [OF m, of existing now1 now2] m
    by (simp add: resolveProfileUnusableUntil_def List.map_filter_simps modelCooldownUntil_def)
next
  case False
  then show ?thesis
    using usedStats_profile [of existing modelId now1 now2]
    by (cases modelId)
       (simp_all add: resolveProfileUnusableUntil_def List.map_filter_simps
          split: option.splits)
qed

lemma markAuthProfileUsed_stats:
  assumes "profiles store profileId \<noteq> None"
  shows "\<exists>existing.
           profileStats (fst (markAuthProfileUsed store disk profileId modelId now1 now2))
             profileId = Some (usedStats existing modelId now1 now2)"
  using assms
  by (auto simp: markAuthProfileUsed_def updateAuthProfileStoreWithLock_def markUsedUpdater_def
        profileStats_def Let_def split: option.splits)

text \<open>
  C4: for a store that holds the profile, after \<^verbatim>\<open>markAuthProfileUsed\<close> the profile's
  statistics have \<^verbatim>\<open>errorCount\<close> 0, no \<^verbatim>\<open>cooldownUntil\<close>, \<^verbatim>\<open>disabledUntil\<close>,
  \<^verbatim>\<open>disabledReason\<close> or \<^verbatim>\<open>failureCounts\<close>, and \<^verbatim>\<open>lastUsed\<close> is the clock reading of the
  call; \<^verbatim>\<open>isProfileInCooldown\<close> is false for the profile at every time. With a model id,
  that model's entry has \<^verbatim>\<open>errorCount\<close> 0, no \<^verbatim>\<open>cooldownUntil\<close>, and \<^verbatim>\<open>lastUsed\<close> the
  clock reading made for it, and \<^verbatim>\<open>isProfileInCooldown\<close> for the profile and that model is
  false at every time. This holds on the locked path and on the fallback path.
\<close>

theorem markAuthProfileUsed_resets:
  assumes "profiles store profileId \<noteq> None"
      and "markAuthProfileUsed store disk profileId modelId now1 now2 = (store', disk')"
  shows "\<exists>stats. profileStats store' profileId = Some stats
           \<and> errorCount stats = Some 0 \<and> cooldownUntil stats = None
           \<and> disabledUntil stats = None \<and> disabledReason stats = None
           \<and> failureCounts stats = None \<and> lastUsed stats = Some (num now1)
           \<and> (\<forall>t. \<not> isProfileInCooldown store' profileId None t)
           \<and> (\<forall>m. modelId = Some m \<and> m \<noteq> [] \<longrightarrow>
                 (\<exists>entry. modelEntry stats m = Some entry
                    \<and> errorCount entry = Some 0 \<and> cooldownUntil entry = None
                    \<and> lastUsed entry = Some (num now2))
                 \<and> (\<forall>t. \<not> isProfileInCooldown store' profileId (Some m) t))"
proof -
  from markAuthProfileUsed_stats [OF assms(1), of disk modelId now1 now2] assms(2)
  obtain existing
    where st: "profileStats store' profileId = Some (usedStats existing modelId now1 now2)"
    by auto
  let ?s = "usedStats existing modelId now1 now2"
  have a: "\<forall>t. \<not> isProfileInCooldown store' profileId None t"
    using st usedStats_not_unusable_profile [of existing modelId now1 now2]
    by (simp add: isProfileInCooldown_def)
  have b: "\<forall>t. \<not> isProfileInCooldown store' profileId modelId t"
    using st usedStats_not_unusable_model [of existing modelId now1 now2]
    by (simp add: isProfileInCooldown_def)
  have c: "\<forall>m. modelId = Some m \<and> m \<noteq> [] \<longrightarrow>
                 (\<exists>entry. modelEntry ?s m = Some entry
                    \<and> errorCount entry = Some 0 \<and> cooldownUntil entry = None
                    \<and> lastUsed entry = Some (num now2))"
    using usedStats_model [of modelId _ existing now1 now2] by simp
  show ?thesis
    using st usedStats_profile [of existing modelId now1 now2] a b c by auto
qed

theorem markAuthProfileUsed_resets_witness:
  "profiles exampleStore ''p1'' \<noteq> None
   \<and> (\<exists>stats. profileStats
         (fst (markAuthProfileUsed exampleStore (Some exampleStore) ''p1'' (Some ''opus'')
                 1000 1001)) ''p1'' = Some stats
        \<and> errorCount stats = Some 0 \<and> cooldownUntil stats = None
        \<and> disabledUntil stats = None \<and> lastUsed stats = Some (num 1000)
        \<and> (\<exists>entry. modelEntry stats ''opus'' = Some entry \<and> lastUsed entry = Some (num 1001)))
   \<and> \<not> isProfileInCooldown
         (fst (markAuthProfileUsed exampleStore (Some exampleStore) ''p1'' (Some ''opus'')
                 1000 1001)) ''p1'' (Some ''opus'') 1000"
proof -
  have h1: "profiles exampleStore ''p1'' \<noteq> None"
    by (simp add: exampleStore_def)
  have h2: "markAuthProfileUsed exampleStore (Some exampleStore) ''p1'' (Some ''opus'') 1000 1001
      = (fst (markAuthProfileUsed exampleStore (Some exampleStore) ''p1'' (Some ''opus'')
                1000 1001),
         snd (markAuthProfileUsed exampleStore (Some exampleStore) ''p1'' (Some ''opus'')
                1000 1001))"
    by simp
  show ?thesis
    using h1 markAuthProfileUsed_resets [OF h1 h2] by auto
qed

subsection \<open>Retry-After\<close>

text \<open>
  C3: \<^verbatim>\<open>extractRetryAfterMs\<close> on an error object without headers whose \<^verbatim>\<open>retryAfter\<close> is
  the number \<open>-1\<close>. The direct property is multiplied by 1000 and returned as it is,
  without the rounding and the clamp at zero of the header's two cases: the result is
  \<open>-1000\<close>, a negative number of milliseconds.
\<close>

theorem extractRetryAfterMs_negative_seconds:
  "extractRetryAfterMs Date_parse now
     (Some \<lparr>headers = None, retryAfter = Some (Finite (- 1)), retry_after = None\<rparr>)
     = Some (Finite (- 1000))"
  by (simp add: extractRetryAfterMs_def headerRetryAfterMs_def)

subsection \<open>Failure window\<close>

text \<open>
  C5: when the existing statistics have a positive \<^verbatim>\<open>lastFailureAt\<close> and
  \<^verbatim>\<open>now - lastFailureAt\<close> exceeds the failure window, a profile-wide failure (reason auth,
  format or unknown, or rate_limit or timeout without a model id) makes \<^verbatim>\<open>errorCount\<close>
  exactly 1, whatever it was before.
\<close>

theorem computeNextProfileUsageStats_window_reset:
  assumes "lastFailureAt existing = Some l"
      and "js_gt l (Finite 0)"
      and "js_gt (js_sub (num now) l) (Finite (failureWindowMs cfgResolved))"
      and "reason \<in> {Auth, Format, Unknown}
           \<or> (reason \<in> {RateLimit, Timeout} \<and> \<not> truthy_str modelId)"
  shows "errorCount (computeNextProfileUsageStats existing now reason cfgResolved modelId
           retryAfterMs) = Some 1"
  using assms
  by (auto simp: computeNextProfileUsageStats_def windowExpired_def Let_def)

theorem computeNextProfileUsageStats_window_reset_witness:
  "lastFailureAt exampleStats = Some (Finite 400)
   \<and> js_gt (Finite 400) (Finite 0)
   \<and> js_gt (js_sub (num 86400401) (Finite 400)) (Finite 86400000)
   \<and> errorCount exampleStats = Some 3
   \<and> errorCount (computeNextProfileUsageStats exampleStats 86400401 RateLimit
        \<lparr>billingBackoffMs = 18000000, billingMaxMs = 86400000, failureWindowMs = 86400000\<rparr>
        None None) = Some 1"
proof -
  have h1: "lastFailureAt exampleStats = Some (Finite 400)"
    by (simp add: exampleStats_def)
  have h2: "js_gt (Finite 400) (Finite 0)"
    by (simp add: js_gt_def)
  have h3: "js_gt (js_sub (num 86400401) (Finite 400))
              (Finite (failureWindowMs \<lparr>billingBackoffMs = 18000000, billingMaxMs = 86400000,
                 failureWindowMs = 86400000\<rparr>))"
    by (simp add: js_gt_def js_sub_def num_def)
  have h4: "RateLimit \<in> {Auth, Format, Unknown}
            \<or> (RateLimit \<in> {RateLimit, Timeout} \<and> \<not> truthy_str None)"
    by simp
  have h5: "errorCount exampleStats = Some 3"
    by (simp add: exampleStats_def)
  show ?thesis
    using h1 h2 h3 h5 computeNextProfileUsageStats_window_reset [OF h1 h2 h3 h4, of None]
    by simp
qed

subsection \<open>Manual reset\<close>

lemma clearAuthProfileCooldown_result:
  assumes "profileStats (clearBase store disk profileId) profileId = Some stats"
  shows "fst (clearAuthProfileCooldown store disk profileId modelId)
           = store\<lparr>usageStats := Some ((orEmpty (usageStats (clearBase store disk profileId)))
                       (profileId \<mapsto> clearedStats stats modelId))\<rparr>"
  using assms
  by (auto simp: clearAuthProfileCooldown_def updateAuthProfileStoreWithLock_def
        clearCooldownUpdater_def clearBase_def Let_def split: option.splits)

lemma profileStats_upd:
  "profileStats (store\<lparr>usageStats := Some ((orEmpty (usageStats base))(p \<mapsto> s))\<rparr>) q
     = (if q = p then Some s else profileStats base q)"
  by (simp add: profileStats_def orEmpty_def split: option.splits)

lemma clearedStats_profile:
  "\<not> truthy_str modelId \<Longrightarrow>
     clearedStats stats modelId = stats\<lparr>errorCount := Some 0, cooldownUntil := None\<rparr>"
  by (simp add: clearedStats_def)

lemma clearedStats_model:
  assumes "m \<noteq> []"
  shows "clearedStats stats (Some m)\<lparr>modelStats := modelStats stats\<rparr> = stats
       \<and> (\<forall>m'. m' \<noteq> m \<longrightarrow> modelEntry (clearedStats stats (Some m)) m' = modelEntry stats m')
       \<and> modelEntry (clearedStats stats (Some m)) m
           = map_option (\<lambda>e. e\<lparr>errorCount := Some 0, cooldownUntil := None\<rparr>)
               (modelEntry stats m)"
  using assms
  by (auto simp: clearedStats_def modelEntry_def orEmpty_def split: option.splits)

text \<open>
  C6: let \<open>stats\<close> be the profile's statistics in the store the reset works on. Without a
  model id the new statistics are \<open>stats\<close> with \<^verbatim>\<open>errorCount\<close> 0 and \<^verbatim>\<open>cooldownUntil\<close>
  cleared, and nothing else changed: \<^verbatim>\<open>disabledUntil\<close>, \<^verbatim>\<open>disabledReason\<close>,
  \<^verbatim>\<open>failureCounts\<close> and all of \<^verbatim>\<open>modelStats\<close> are as before. With a model id every
  profile-wide field and every other model's entry is as before, and that model's entry,
  when there is one, differs only in \<^verbatim>\<open>errorCount\<close> 0 and \<^verbatim>\<open>cooldownUntil\<close> cleared. In
  both cases the statistics of every other profile, and every other field of the caller's
  store, are as before.
\<close>

theorem clearAuthProfileCooldown_frame:
  assumes "clearAuthProfileCooldown store disk profileId modelId = (store', disk')"
      and "profileStats (clearBase store disk profileId) profileId = Some stats"
  shows "\<exists>stats'. profileStats store' profileId = Some stats'
           \<and> (\<forall>q. q \<noteq> profileId \<longrightarrow>
                 profileStats store' q = profileStats (clearBase store disk profileId) q)
           \<and> store'\<lparr>usageStats := usageStats store\<rparr> = store
           \<and> (\<not> truthy_str modelId \<longrightarrow>
                 stats' = stats\<lparr>errorCount := Some 0, cooldownUntil := None\<rparr>)
           \<and> (\<forall>m. modelId = Some m \<and> m \<noteq> [] \<longrightarrow>
                 stats'\<lparr>modelStats := modelStats stats\<rparr> = stats
                 \<and> (\<forall>m'. m' \<noteq> m \<longrightarrow> modelEntry stats' m' = modelEntry stats m')
                 \<and> modelEntry stats' m
                     = map_option (\<lambda>e. e\<lparr>errorCount := Some 0, cooldownUntil := None\<rparr>)
                         (modelEntry stats m))"
proof -
  have s': "store' = store\<lparr>usageStats :=
              Some ((orEmpty (usageStats (clearBase store disk profileId)))
                      (profileId \<mapsto> clearedStats stats modelId))\<rparr>"
    using clearAuthProfileCooldown_result [OF assms(2), of modelId] assms(1) by simp
  have 1: "profileStats store' profileId = Some (clearedStats stats modelId)"
    unfolding s' by (simp add: profileStats_upd)
  have 2: "\<forall>q. q \<noteq> profileId \<longrightarrow>
                 profileStats store' q = profileStats (clearBase store disk profileId) q"
    unfolding s' by (simp add: profileStats_upd)
  have 3: "store'\<lparr>usageStats := usageStats store\<rparr> = store"
    unfolding s' by simp
  show ?thesis
    using 1 2 3 clearedStats_profile [of modelId stats] clearedStats_model [of _ stats]
    by auto
qed

theorem clearAuthProfileCooldown_frame_witness:
  "profileStats (clearBase exampleStore (Some exampleStore) ''p1'') ''p1'' = Some exampleStats
   \<and> profileStats (fst (clearAuthProfileCooldown exampleStore (Some exampleStore) ''p1'' None))
        ''p1'' = Some (exampleStats\<lparr>errorCount := Some 0, cooldownUntil := None\<rparr>)
   \<and> (\<exists>stats'. profileStats
          (fst (clearAuthProfileCooldown exampleStore (Some exampleStore) ''p1'' (Some ''opus'')))
          ''p1'' = Some stats'
        \<and> stats'\<lparr>modelStats := modelStats exampleStats\<rparr> = exampleStats
        \<and> modelEntry stats' ''opus''
            = Some \<lparr>lastUsed = Some (Finite 50), cooldownUntil = None, errorCount = Some 0,
                    lastFailureAt = Some (Finite 300)\<rparr>)"
proof -
  have h: "profileStats (clearBase exampleStore (Some exampleStore) ''p1'') ''p1''
             = Some exampleStats"
    by (simp add: clearBase_def profileStats_def exampleStore_def)
  have c1: "clearAuthProfileCooldown exampleStore (Some exampleStore) ''p1'' None
      = (fst (clearAuthProfileCooldown exampleStore (Some exampleStore) ''p1'' None),
         snd (clearAuthProfileCooldown exampleStore (Some exampleStore) ''p1'' None))"
    by simp
  have c2: "clearAuthProfileCooldown exampleStore (Some exampleStore) ''p1'' (Some ''opus'')
      = (fst (clearAuthProfileCooldown exampleStore (Some exampleStore) ''p1'' (Some ''opus'')),
         snd (clearAuthProfileCooldown exampleStore (Some exampleStore) ''p1'' (Some ''opus'')))"
    by simp
  have e: "modelEntry exampleStats ''opus''
             = Some \<lparr>lastUsed = Some (Finite 50), cooldownUntil = Some (Finite 7000),
                     errorCount = Some 2, lastFailureAt = Some (Finite 300)\<rparr>"
    by (simp add: modelEntry_def exampleStats_def)
  show ?thesis
    using h e clearAuthProfileCooldown_frame [OF c1 h] clearAuthProfileCooldown_frame [OF c2 h]
    by auto
qed

subsection \<open>Billing backoff\<close>

text \<open>
  C8: for \<open>n \<ge> 1\<close>, \<open>baseMs \<ge> 60000\<close> and \<open>maxMs \<ge> baseMs\<close> the billing backoff is at
  most \<open>maxMs\<close>, does not decrease when \<open>n\<close> grows, and is
  \<open>min maxMs (max 60000 baseMs * 2 ^ min (n - 1) 10)\<close>.
\<close>

theorem billing_backoff_bounded_monotone:
  assumes "1 \<le> n" and "60000 \<le> baseMs" and "baseMs \<le> maxMs" and "n \<le> n'"
  shows "calculateAuthProfileBillingDisableMsWithConfig n baseMs maxMs \<le> maxMs
       \<and> calculateAuthProfileBillingDisableMsWithConfig n baseMs maxMs
           \<le> calculateAuthProfileBillingDisableMsWithConfig n' baseMs maxMs
       \<and> calculateAuthProfileBillingDisableMsWithConfig n baseMs maxMs
           = min maxMs (max 60000 baseMs * 2 ^ nat (min (n - 1) 10))"
proof -
  have b: "max 60000 baseMs = baseMs" and m: "max baseMs maxMs = maxMs"
    using assms by simp_all
  have eq: "\<And>k. 1 \<le> k \<Longrightarrow> calculateAuthProfileBillingDisableMsWithConfig k baseMs maxMs
            = min maxMs (baseMs * 2 ^ nat (min (k - 1) 10))"
    using b m by (simp add: calculateAuthProfileBillingDisableMsWithConfig_def Let_def)
  have le: "nat (min (n - 1) 10) \<le> nat (min (n' - 1) 10)"
    using assms by simp
  have "(2::real) ^ nat (min (n - 1) 10) \<le> 2 ^ nat (min (n' - 1) 10)"
    using le by (rule power_increasing) simp
  then have mono: "baseMs * 2 ^ nat (min (n - 1) 10) \<le> baseMs * 2 ^ nat (min (n' - 1) 10)"
    using assms(2) by (simp add: mult_left_mono)
  have n': "1 \<le> n'" using assms by simp
  show ?thesis
    using eq [OF assms(1)] eq [OF n'] mono b by (simp add: min_le_iff_disj)
qed

theorem billing_backoff_bounded_monotone_witness:
  "(1::int) \<le> 2 \<and> (60000::real) \<le> 18000000 \<and> (18000000::real) \<le> 86400000
   \<and> (2::int) \<le> 4
   \<and> calculateAuthProfileBillingDisableMsWithConfig 2 18000000 86400000 = 36000000
   \<and> calculateAuthProfileBillingDisableMsWithConfig 4 18000000 86400000 = 86400000
   \<and> calculateAuthProfileBillingDisableMsWithConfig 2 18000000 86400000
       \<le> calculateAuthProfileBillingDisableMsWithConfig 4 18000000 86400000"
  using billing_backoff_bounded_monotone [of 2 18000000 86400000 4]
    billing_backoff_bounded_monotone [of 4 18000000 86400000 4]
  by (simp add: eval_nat_numeral)

subsection \<open>The retry driver\<close>

text \<open>
  C7: when \<^verbatim>\<open>execute\<close> throws and no cancellation is requested, the driver notifies, sleeps
  and goes on to the next iteration exactly when the error is a \<^verbatim>\<open>FailoverError\<close> whose
  reason is rate_limit or timeout; for every other error (not a \<^verbatim>\<open>FailoverError\<close>, or one
  with reason billing, auth, format or unknown) it throws that same error at once, without
  a notice or a sleep.
\<close>

theorem withInfiniteRetry_retries_only_on_quota:
  assumes "\<not> abortedAtTop e" and "\<not> abortedInCatch e"
      and "\<not> abortedBeforeSleep e" and "\<not> abortedDuringSleep e"
      and "executeResult e = Inl err"
  shows "((\<exists>reason. err = FailoverError reason \<and> (reason = RateLimit \<or> reason = Timeout)) \<longrightarrow>
            (\<exists>notice. withInfiniteRetry_loop onQuotaExhaustion profileCandidates modelId provider
                 attempt0 (e # es)
               = (Executed (attempt0 + 1) # notice
                    # Slept (waitMsOf (authStore e) profileCandidates modelId (clock e))
                    # fst (withInfiniteRetry_loop onQuotaExhaustion profileCandidates modelId
                            provider (attempt0 + 1) es),
                  snd (withInfiniteRetry_loop onQuotaExhaustion profileCandidates modelId
                         provider (attempt0 + 1) es))))
       \<and> (\<not> (\<exists>reason. err = FailoverError reason \<and> (reason = RateLimit \<or> reason = Timeout)) \<longrightarrow>
            withInfiniteRetry_loop onQuotaExhaustion profileCandidates modelId provider
                 attempt0 (e # es)
              = ([Executed (attempt0 + 1)], Threw err))"
proof (cases "isQuotaFailure err")
  case True
  then have q: "\<exists>reason. err = FailoverError reason \<and> (reason = RateLimit \<or> reason = Timeout)"
    by (cases err) auto
  show ?thesis
    using assms True q
    by (simp add: Let_def sleepWithAbort_def split: prod.splits)
next
  case False
  then have q: "\<not> (\<exists>reason. err = FailoverError reason \<and> (reason = RateLimit \<or> reason = Timeout))"
    by (cases err) auto
  show ?thesis
    using assms False q by (simp add: Let_def)
qed

theorem withInfiniteRetry_retries_only_on_quota_witness:
  "(\<exists>notice. withInfiniteRetry_loop True None None None 0
       [exampleAttempt (FailoverError RateLimit)]
     = ([Executed 1, notice, Slept (Finite 60000)], Pending))
   \<and> withInfiniteRetry_loop True None None None 0
       [exampleAttempt (FailoverError Billing), exampleAttempt (FailoverError RateLimit)]
     = ([Executed 1], Threw (FailoverError Billing))
   \<and> withInfiniteRetry_loop True None None None 0
       [exampleAttempt (Error ''boom'')]
     = ([Executed 1], Threw (Error ''boom''))"
proof -
  have a: "\<And>err. \<not> abortedAtTop (exampleAttempt err)"
    and b: "\<And>err. \<not> abortedInCatch (exampleAttempt err)"
    and c: "\<And>err. \<not> abortedBeforeSleep (exampleAttempt err)"
    and d: "\<And>err. \<not> abortedDuringSleep (exampleAttempt err)"
    and x: "\<And>err. executeResult (exampleAttempt err) = Inl err"
    by (simp_all add: exampleAttempt_def)
  note t = withInfiniteRetry_retries_only_on_quota [OF a b c d x]
  have w: "waitMsOf (authStore (exampleAttempt (FailoverError RateLimit))) None None
             (clock (exampleAttempt (FailoverError RateLimit))) = Finite 60000"
    by (simp add: waitMsOf_def exampleAttempt_def)
  show ?thesis
    using t [of "FailoverError RateLimit" True None None None 0 "[]"]
      t [of "FailoverError Billing" True None None None 0
           "[exampleAttempt (FailoverError RateLimit)]"]
      t [of "Error ''boom''" True None None None 0 "[]"]
    by (simp add: w del: withInfiniteRetry_loop.simps(2))
qed

lemma calculateMinimumWaitMs_loop_skips:
  "\<forall>c\<in>set cands. \<not> truthy_str c \<Longrightarrow>
     calculateMinimumWaitMs_loop store m now clk k cands least
       = calculateMinimumWaitMs_loop store m now clk k [] least"
  by (induction cands) simp_all

text \<open>
  C10: when a store, a list of candidates and a model id are all passed, and the list is
  empty or holds only absent (or empty) entries, \<^verbatim>\<open>calculateMinimumWaitMs\<close> is 0 and so is
  the wait the driver computes, not the 60000 it takes when the three are not passed; the
  driver, on a rate-limit or timeout failure with no cancellation, then sleeps 0
  milliseconds and goes on to the next iteration.
\<close>

theorem withInfiniteRetry_no_candidate_waits_zero:
  assumes "authStore e = Some store" and "profileCandidates = Some cands"
      and "modelId = Some m" and "m \<noteq> []"
      and "\<forall>c\<in>set cands. \<not> truthy_str c"
  shows "calculateMinimumWaitMs store cands m (clock e) = Finite 0
       \<and> waitMsOf (authStore e) profileCandidates modelId (clock e) = Finite 0
       \<and> waitMsOf None None None (clock e) = Finite 60000
       \<and> (\<not> abortedAtTop e \<and> \<not> abortedInCatch e \<and> \<not> abortedBeforeSleep e
            \<and> \<not> abortedDuringSleep e \<and> executeResult e = Inl err \<and> isQuotaFailure err \<longrightarrow>
          (\<exists>notice. withInfiniteRetry_loop onQuotaExhaustion profileCandidates modelId provider
               attempt0 (e # es)
             = (Executed (attempt0 + 1) # notice # Slept (Finite 0)
                  # fst (withInfiniteRetry_loop onQuotaExhaustion profileCandidates modelId
                          provider (attempt0 + 1) es),
                snd (withInfiniteRetry_loop onQuotaExhaustion profileCandidates modelId
                       provider (attempt0 + 1) es))))"
proof -
  have 1: "calculateMinimumWaitMs store cands m (clock e) = Finite 0"
    using calculateMinimumWaitMs_loop_skips [OF assms(5), of store m "clock e 0" "clock e" 1 None]
    by (simp add: calculateMinimumWaitMs_def)
  have 2: "waitMsOf (authStore e) profileCandidates modelId (clock e) = Finite 0"
    using 1 assms by (simp add: waitMsOf_def)
  have 3: "waitMsOf None None None (clock e) = Finite 60000"
    by (simp add: waitMsOf_def)
  show ?thesis
    using 1 2 3 by (simp add: Let_def sleepWithAbort_def split: prod.splits)
qed

theorem withInfiniteRetry_no_candidate_waits_zero_witness:
  "authStore (exampleAttempt (FailoverError Timeout)) = Some exampleStore
   \<and> \<not> truthy_str None \<and> \<not> truthy_str (Some '''')
   \<and> calculateMinimumWaitMs exampleStore [None, Some ''''] ''opus''
        (clock (exampleAttempt (FailoverError Timeout))) = Finite 0
   \<and> calculateMinimumWaitMs exampleStore [] ''opus''
        (clock (exampleAttempt (FailoverError Timeout))) = Finite 0
   \<and> (\<exists>notice. withInfiniteRetry_loop False (Some [None, Some '''']) (Some ''opus'') None 0
          [exampleAttempt (FailoverError Timeout)]
        = ([Executed 1, notice, Slept (Finite 0)], Pending))"
proof -
  have a: "authStore (exampleAttempt (FailoverError Timeout)) = Some exampleStore"
    by (simp add: exampleAttempt_def)
  have n: "''opus'' \<noteq> []" by simp
  have c: "\<forall>c\<in>set [None, Some '''']. \<not> truthy_str c" by simp
  have c0: "\<forall>c\<in>set ([] :: string option list). \<not> truthy_str c" by simp
  have x: "\<not> abortedAtTop (exampleAttempt (FailoverError Timeout))
           \<and> \<not> abortedInCatch (exampleAttempt (FailoverError Timeout))
           \<and> \<not> abortedBeforeSleep (exampleAttempt (FailoverError Timeout))
           \<and> \<not> abortedDuringSleep (exampleAttempt (FailoverError Timeout))
           \<and> executeResult (exampleAttempt (FailoverError Timeout)) = Inl (FailoverError Timeout)
           \<and> isQuotaFailure (FailoverError Timeout)"
    by (simp add: exampleAttempt_def)
  show ?thesis
    using a c x
      withInfiniteRetry_no_candidate_waits_zero [OF a refl refl n c,
        of "FailoverError Timeout" False None 0 "[]"]
      withInfiniteRetry_no_candidate_waits_zero [OF a refl refl n c0,
        of "FailoverError Timeout" False None 0 "[]"]
    by (simp del: withInfiniteRetry_loop.simps(2))
qed

end
